theory Spec2Isabelle
  imports Complex_Main "HOL-Library.Sublist" "HOL-Library.Char_ord" "HOL-Library.List_Lexorder"
begin

chapter \<open>The content-based movie recommender\<close>

text \<open>
  The engine exists in two modules that share their text functions word for word:
  \<^item> recommendation-grok.ts (in this copy of the sources \<^verbatim>\<open>unnamed/part_003\<close>, the module
    that imports \<^verbatim>\<open>./grok-api\<close>): the corpus comes from a remote provider, is cached for one
    hour and grows when a title is looked up that the corpus does not have;
  \<^item> recommendation.ts (\<^verbatim>\<open>unnamed/part_004\<close>, the module the route \<^verbatim>\<open>api/recommend\<close>
    imports): the corpus is the local CSV dataset; it also has the keyword search.

  A function that both modules define, with different bodies, keeps its name for the
  first module and has the suffix \<open>_csv\<close> for the second. The definitions come first,
  then the facts about them, then the theorems that settle the claims C1 to C10.
\<close>


section \<open>Strings\<close>

text \<open>
  A JavaScript string is a sequence of UTF-16 code units. The model uses \<^typ>\<open>string\<close>
  and reads each \<^typ>\<open>char\<close> as the code unit with the same number, so it covers the
  texts over U+0000..U+00FF (ASCII and Latin-1); \<open>length\<close> counts code units as
  \<open>.length\<close> does.

  \<open>is_space\<close> is the class \<open>\s\<close> of a regular expression, which is also what
  \<open>trim()\<close> strips: TAB, LF, VT, FF, CR, SPACE and NO-BREAK SPACE in this range.
  \<open>is_word\<close> is the class \<open>\w\<close>: the ASCII letters, the digits and the underscore.
  \<open>lower_char\<close> is \<open>toLowerCase()\<close> on one code unit: A-Z and the Latin-1 capitals
  U+00C0..U+00DE (without the multiplication sign U+00D7) move up by 32.
\<close>

definition is_space :: "char \<Rightarrow> bool" where
  "is_space c = (of_char c \<in> {9, 10, 11, 12, 13, 32, 160 :: nat})"

definition is_word :: "char \<Rightarrow> bool" where
  "is_word c = (let n = of_char c :: nat in
     (48 \<le> n \<and> n \<le> 57) \<or> (65 \<le> n \<and> n \<le> 90) \<or> n = 95 \<or> (97 \<le> n \<and> n \<le> 122))"

definition is_upper :: "char \<Rightarrow> bool" where
  "is_upper c = (let n = of_char c :: nat in
     (65 \<le> n \<and> n \<le> 90) \<or> (192 \<le> n \<and> n \<le> 222 \<and> n \<noteq> 215))"

definition lower_char :: "char \<Rightarrow> char" where
  "lower_char c = (if is_upper c then char_of (of_char c + 32 :: nat) else c)"

definition toLowerCase :: "string \<Rightarrow> string" where
  "toLowerCase s = map lower_char s"

definition trim :: "string \<Rightarrow> string" where
  "trim s = rev (dropWhile is_space (rev (dropWhile is_space s)))"

text \<open>\<open>hay.includes(needle)\<close>: the needle occurs as a contiguous run of the haystack.\<close>

fun starts_with :: "string \<Rightarrow> string \<Rightarrow> bool" where
  "starts_with hay [] = True"
| "starts_with [] (n # ns) = False"
| "starts_with (h # hs) (n # ns) = (h = n \<and> starts_with hs ns)"

fun includes_str :: "string \<Rightarrow> string \<Rightarrow> bool" where
  "includes_str [] needle = (needle = [])"
| "includes_str (h # hs) needle = (starts_with (h # hs) needle \<or> includes_str hs needle)"

text \<open>
  \<open>text.replace(/[^\w\s]/g, ' ')\<close>: every code unit that is neither a word character nor
  white space becomes a space.
\<close>

definition replace_nonword :: "string \<Rightarrow> string" where
  "replace_nonword s = map (\<lambda>c. if is_word c \<or> is_space c then c else CHR '' '') s"

text \<open>
  \<open>text.split(/\s+/)\<close>: the pieces between the maximal runs of white space. The scan keeps
  the piece read so far and whether it is inside a run; a string that starts or ends with
  white space gives an empty first or last piece, and the empty string gives one empty piece.
\<close>

fun split_ws :: "bool \<Rightarrow> string \<Rightarrow> string \<Rightarrow> string list" where
  "split_ws gap cur [] = [cur]"
| "split_ws gap cur (c # cs) =
     (if is_space c
      then (if gap then split_ws True cur cs else cur # split_ws True [] cs)
      else split_ws False (cur @ [c]) cs)"

definition split_whitespace :: "string \<Rightarrow> string list" where
  "split_whitespace s = split_ws False [] s"

subsection \<open>tokenize\<close>

text \<open>
  \<^verbatim>\<open>
  function tokenize(text: string): string[] {
    return text.toLowerCase().replace(/[^\w\s]/g, ' ').split(/\s+/)
               .filter(word => word.length > 2);
  }
  \<close>
\<close>

definition tokenize :: "string \<Rightarrow> string list" where
  "tokenize text =
     filter (\<lambda>word. length word > 2) (split_whitespace (replace_nonword (toLowerCase text)))"

text \<open>
  The tokenizer as the specification words it, with the class of characters that survive
  as a parameter: lowercase, blank every character that is neither kept nor white space,
  take the words between the runs of white space, drop the words of length at most 2.
\<close>

function words_of :: "string \<Rightarrow> string list" where
  "words_of [] = []"
| "words_of (c # cs) =
     (if is_space c then words_of cs
      else takeWhile (\<lambda>x. \<not> is_space x) (c # cs) # words_of (dropWhile (\<lambda>x. \<not> is_space x) cs))"
  by pat_completeness auto
termination
  by (relation "measure length") (auto simp: le_imp_less_Suc length_dropWhile_le)

definition tokenize_spec :: "(char \<Rightarrow> bool) \<Rightarrow> string \<Rightarrow> string list" where
  "tokenize_spec keep text =
     filter (\<lambda>t. \<not> length t \<le> 2)
       (words_of (map (\<lambda>c. if \<not> keep c \<and> \<not> is_space c then CHR '' '' else c) (toLowerCase text)))"

definition is_alphanumeric :: "char \<Rightarrow> bool" where
  "is_alphanumeric c = (let n = of_char c :: nat in
     (48 \<le> n \<and> n \<le> 57) \<or> (65 \<le> n \<and> n \<le> 90) \<or> (97 \<le> n \<and> n \<le> 122))"

section \<open>Numbers\<close>

text \<open>
  A JavaScript number is an IEEE double. The model keeps the special values and reads
  every finite value as the real number it stands for: arithmetic on finite values is
  exact (no rounding, no overflow, one zero), and \<open>NaN\<close> and the infinities propagate as
  the language prescribes. Reading a vector out of range gives \<open>undefined\<close>, which
  arithmetic turns into \<open>NaN\<close>.
\<close>

datatype number = Num real | PInf | NInf | NaN

fun nneg :: "number \<Rightarrow> number" where
  "nneg (Num a) = Num (- a)"
| "nneg PInf = NInf"
| "nneg NInf = PInf"
| "nneg NaN = NaN"

fun nadd :: "number \<Rightarrow> number \<Rightarrow> number" where
  "nadd (Num a) (Num b) = Num (a + b)"
| "nadd NaN y = NaN"
| "nadd x NaN = NaN"
| "nadd PInf NInf = NaN"
| "nadd NInf PInf = NaN"
| "nadd PInf y = PInf"
| "nadd x PInf = PInf"
| "nadd NInf y = NInf"
| "nadd x NInf = NInf"

definition nsub :: "number \<Rightarrow> number \<Rightarrow> number" where
  "nsub x y = nadd x (nneg y)"

definition inf_of_sign :: "real \<Rightarrow> number" where
  "inf_of_sign s = (if s = 0 then NaN else if 0 < s then PInf else NInf)"

fun nsign :: "number \<Rightarrow> real" where
  "nsign (Num a) = sgn a"
| "nsign PInf = 1"
| "nsign NInf = - 1"
| "nsign NaN = 0"

fun nmul :: "number \<Rightarrow> number \<Rightarrow> number" where
  "nmul (Num a) (Num b) = Num (a * b)"
| "nmul x y = (if x = NaN \<or> y = NaN then NaN else inf_of_sign (nsign x * nsign y))"

fun ndiv :: "number \<Rightarrow> number \<Rightarrow> number" where
  "ndiv (Num a) (Num b) = (if b = 0 then inf_of_sign (sgn a) else Num (a / b))"
| "ndiv (Num a) y = (if y = NaN then NaN else Num 0)"
| "ndiv x y = (case y of Num b \<Rightarrow> (if x = NaN then NaN else if b < 0 then nneg x else x) | _ \<Rightarrow> NaN)"

fun nsqrt :: "number \<Rightarrow> number" where
  "nsqrt (Num a) = (if a < 0 then NaN else Num (sqrt a))"
| "nsqrt PInf = PInf"
| "nsqrt x = NaN"

fun nlog :: "number \<Rightarrow> number" where
  "nlog (Num a) = (if a < 0 then NaN else if a = 0 then NInf else Num (ln a))"
| "nlog PInf = PInf"
| "nlog x = NaN"

text \<open>\<open>v[i]\<close> inside an arithmetic expression: out of range is \<open>undefined\<close>, hence \<open>NaN\<close>.\<close>

definition at_index :: "number list \<Rightarrow> nat \<Rightarrow> number" where
  "at_index v i = (if i < length v then v ! i else NaN)"

subsection \<open>cosineSimilarity\<close>

text \<open>
  \<^verbatim>\<open>
  let dotProduct = 0; let norm1 = 0; let norm2 = 0;
  for (let i = 0; i < vec1.length; i++) {
    dotProduct += vec1[i] * vec2[i];
    norm1 += vec1[i] * vec1[i];
    norm2 += vec2[i] * vec2[i];
  }
  const denominator = Math.sqrt(norm1) * Math.sqrt(norm2);
  return denominator === 0 ? 0 : dotProduct / denominator;
  \<close>
  This body is the whole function in recommendation.ts (\<open>cosineSimilarity_csv\<close>);
  recommendation-grok.ts puts the guard
  \<^verbatim>\<open>if (!Array.isArray(vec1) || !Array.isArray(vec2)) return 0;\<close>
  in front of it (\<open>cosineSimilarity\<close>, where \<open>None\<close> is a value that is not an array).
\<close>

definition cosine_step ::
  "number list \<Rightarrow> number list \<Rightarrow> nat \<Rightarrow> number \<times> number \<times> number \<Rightarrow> number \<times> number \<times> number" where
  "cosine_step vec1 vec2 i acc =
     (case acc of (dotProduct, norm1, norm2) \<Rightarrow>
        (nadd dotProduct (nmul (at_index vec1 i) (at_index vec2 i)),
         nadd norm1 (nmul (at_index vec1 i) (at_index vec1 i)),
         nadd norm2 (nmul (at_index vec2 i) (at_index vec2 i))))"

definition cosine_loop :: "number list \<Rightarrow> number list \<Rightarrow> number \<times> number \<times> number" where
  "cosine_loop vec1 vec2 = fold (cosine_step vec1 vec2) [0..<length vec1] (Num 0, Num 0, Num 0)"

definition cosineSimilarity_csv :: "number list \<Rightarrow> number list \<Rightarrow> number" where
  "cosineSimilarity_csv vec1 vec2 =
     (case cosine_loop vec1 vec2 of (dotProduct, norm1, norm2) \<Rightarrow>
        let denominator = nmul (nsqrt norm1) (nsqrt norm2)
        in if denominator = Num 0 then Num 0 else ndiv dotProduct denominator)"

definition cosineSimilarity :: "number list option \<Rightarrow> number list option \<Rightarrow> number" where
  "cosineSimilarity vec1 vec2 =
     (case (vec1, vec2) of
        (Some v1, Some v2) \<Rightarrow> cosineSimilarity_csv v1 v2
      | _ \<Rightarrow> Num 0)"


text \<open>The squared L2 norm of a vector of reals.\<close>

definition sq_norm :: "real list \<Rightarrow> real" where
  "sq_norm v = (\<Sum>x\<leftarrow>v. x\<^sup>2)"

section \<open>The corpus and its TF-IDF vectors\<close>

text \<open>
  The interface \<open>Movie\<close>. Both modules, recommendation-grok.ts (the corpus comes from a
  remote provider) and recommendation.ts (the corpus is the local CSV dataset), declare it
  and share the text functions of this section word for word.
\<close>

record movie =
  movie_id :: int
  title :: string
  industry :: string
  genre :: string
  language :: string
  release_year :: int
  overview :: string

text \<open>The template string \<^verbatim>\<open>`${movie.title} ${movie.genre} ${movie.overview}`\<close>.\<close>

definition combinedText :: "movie \<Rightarrow> string" where
  "combinedText m = title m @ '' '' @ genre m @ '' '' @ overview m"

subsection \<open>buildVocabulary\<close>

text \<open>
  A \<open>Set\<close> of strings keeps its elements in insertion order; \<open>add\<close> of a present element
  changes nothing. \<open>Array.from(vocabSet).sort()\<close> orders the strings by code units.
\<close>

definition set_add :: "string \<Rightarrow> string list \<Rightarrow> string list" where
  "set_add token vocabSet = (if token \<in> set vocabSet then vocabSet else vocabSet @ [token])"

definition buildVocabulary :: "movie list \<Rightarrow> string list" where
  "buildVocabulary movies =
     sort (fold (\<lambda>movie vocabSet. fold set_add (tokenize (combinedText movie)) vocabSet) movies [])"

subsection \<open>The object \<open>termFreq\<close>\<close>

text \<open>
  \<open>termFreq\<close> is an object literal \<open>{}\<close> used as a dictionary. A read \<open>termFreq[key]\<close>
  that finds no own property continues in \<open>Object.prototype\<close>, whose properties are
  functions, and for \<open>__proto__\<close> an accessor that returns the prototype object; an
  assignment to \<open>__proto__\<close> of a value that is not an object does nothing.

  The values that occur: numbers, \<open>undefined\<close>, objects (functions among them), and
  strings that are not numerals, which is what \<open>+ 1\<close> makes of an object or of such a
  string. Objects and these strings are truthy and convert to NaN.
\<close>

datatype jsval = JNumber number | JUndefined | JObject | JText

type_synonym js_object = "string \<rightharpoonup> jsval"

definition prototype_keys :: "string list" where
  "prototype_keys =
     [''constructor'', ''__defineGetter__'', ''__defineSetter__'', ''hasOwnProperty'',
      ''__lookupGetter__'', ''__lookupSetter__'', ''isPrototypeOf'', ''propertyIsEnumerable'',
      ''toString'', ''valueOf'', ''__proto__'', ''toLocaleString'']"

definition get_prop :: "js_object \<Rightarrow> string \<Rightarrow> jsval" where
  "get_prop obj key =
     (case obj key of
        Some v \<Rightarrow> v
      | None \<Rightarrow> if key \<in> set prototype_keys then JObject else JUndefined)"

definition set_prop :: "js_object \<Rightarrow> string \<Rightarrow> jsval \<Rightarrow> js_object" where
  "set_prop obj key v = (if key = ''__proto__'' then obj else obj(key \<mapsto> v))"

text \<open>\<open>x || 0\<close>, \<open>x + 1\<close> and the conversion to a number that \<open>/\<close> applies.\<close>

definition or_zero :: "jsval \<Rightarrow> jsval" where
  "or_zero v =
     (case v of
        JUndefined \<Rightarrow> JNumber (Num 0)
      | JNumber x \<Rightarrow> if x = Num 0 \<or> x = NaN then JNumber (Num 0) else JNumber x
      | _ \<Rightarrow> v)"

definition plus_one :: "jsval \<Rightarrow> jsval" where
  "plus_one v =
     (case v of
        JNumber x \<Rightarrow> JNumber (nadd x (Num 1))
      | JUndefined \<Rightarrow> JNumber NaN
      | _ \<Rightarrow> JText)"

definition to_number :: "jsval \<Rightarrow> number" where
  "to_number v = (case v of JNumber x \<Rightarrow> x | _ \<Rightarrow> NaN)"

subsection \<open>calculateTfIdf\<close>

text \<open>
  \<^verbatim>\<open>
  const tokens = tokenize(document);
  if (tokens.length === 0) { return vocabulary.map(() => 0); }
  const termFreq: { [key: string]: number } = {};
  tokens.forEach(token => { termFreq[token] = (termFreq[token] || 0) + 1; });
  return vocabulary.map(word => {
    const tf = (termFreq[word] || 0) / tokens.length;
    const docCount = allDocuments.filter(doc => tokenize(doc).includes(word)).length;
    const idf = Math.log(allDocuments.length / (docCount + 1));
    return tf * idf;
  });
  \<close>
\<close>

definition count_token :: "string \<Rightarrow> js_object \<Rightarrow> js_object" where
  "count_token token termFreq =
     set_prop termFreq token (plus_one (or_zero (get_prop termFreq token)))"

definition calculateTfIdf :: "string \<Rightarrow> string list \<Rightarrow> string list \<Rightarrow> number list" where
  "calculateTfIdf document vocabulary allDocuments =
     (let tokens = tokenize document in
      if length tokens = 0 then map (\<lambda>_. Num 0) vocabulary
      else
        let termFreq = fold count_token tokens Map.empty in
        map (\<lambda>word.
               let tf = ndiv (to_number (or_zero (get_prop termFreq word)))
                          (Num (real (length tokens)));
                   docCount = length (filter (\<lambda>doc. word \<in> set (tokenize doc)) allDocuments);
                   idf = nlog (ndiv (Num (real (length allDocuments))) (Num (real (docCount + 1))))
               in nmul tf idf)
          vocabulary)"

text \<open>
  The rows that both versions of \<open>buildTfIdfMatrix\<close> compute when they do not reuse a
  cached matrix:
  \<^verbatim>\<open>
  const combinedTexts = movies.map(movie => `${movie.title} ${movie.genre} ${movie.overview}`);
  vocabulary = buildVocabulary(movies);
  tfidfMatrix = combinedTexts.map(doc => calculateTfIdf(doc, vocabArray, combinedTexts));
  \<close>
\<close>

definition tfidf_rows :: "movie list \<Rightarrow> string list \<Rightarrow> number list list" where
  "tfidf_rows movies vocabArray =
     (let combinedTexts = map combinedText movies
      in map (\<lambda>doc. calculateTfIdf doc vocabArray combinedTexts) combinedTexts)"

text \<open>
  The weights as the specification gives them: term frequency, document frequency and
  inverse document frequency over the tokens of the documents.
\<close>

definition tf :: "string \<Rightarrow> string \<Rightarrow> real" where
  "tf w doc =
     (if tokenize doc = [] then 0
      else real (count_list (tokenize doc) w) / real (length (tokenize doc)))"

definition doc_frequency :: "string \<Rightarrow> string list \<Rightarrow> nat" where
  "doc_frequency w docs = length (filter (\<lambda>doc. w \<in> set (tokenize doc)) docs)"

definition idf :: "string \<Rightarrow> string list \<Rightarrow> real" where
  "idf w docs = ln (real (length docs) / real (doc_frequency w docs + 1))"

definition weight :: "string \<Rightarrow> string \<Rightarrow> string list \<Rightarrow> real" where
  "weight w doc docs = tf w doc * idf w docs"


section \<open>Errors, sorting, slicing, rounding\<close>

text \<open>
  The functions throw \<open>Error\<close> with three messages, and a read through \<open>undefined\<close>
  throws a \<open>TypeError\<close>:
  \<^item> \<open>EmptyCorpus\<close>: \<^verbatim>\<open>Dataset is empty. ...\<close>
  \<^item> \<open>NotFound\<close>: \<^verbatim>\<open>Movie "..." not found. Please try another title.\<close>
  \<^item> \<open>NotInDataset\<close>: \<^verbatim>\<open>Movie "..." not found in the dataset\<close>
\<close>

datatype error = EmptyCorpus | NotFound | NotInDataset | TypeError

text \<open>\<open>RecommendationResult extends Movie\<close> with \<open>similarity_score\<close>.\<close>

record recommendation = movie +
  similarity_score :: number

definition with_score :: "movie \<Rightarrow> number \<Rightarrow> recommendation" where
  "with_score m sc = movie.extend m \<lparr>similarity_score = sc\<rparr>"

text \<open>
  \<open>Array.prototype.sort(compare)\<close> is stable, and puts \<open>a\<close> after \<open>b\<close> when
  \<open>compare(a, b) > 0\<close>; a comparator result of NaN counts as 0. For a consistent
  comparator the result is fixed by the language: it is the stable sorted permutation,
  which insertion from the right computes. For an inconsistent comparator (scores that
  are NaN) the language leaves the order to the implementation; the model then still
  returns what insertion gives, and no theorem below relies on it.
\<close>

definition is_positive :: "number \<Rightarrow> bool" where
  "is_positive v = (case v of Num r \<Rightarrow> 0 < r | PInf \<Rightarrow> True | _ \<Rightarrow> False)"

fun insert_by :: "('a \<Rightarrow> 'a \<Rightarrow> number) \<Rightarrow> 'a \<Rightarrow> 'a list \<Rightarrow> 'a list" where
  "insert_by compare a [] = [a]"
| "insert_by compare a (b # bs) =
     (if is_positive (compare a b) then b # insert_by compare a bs else a # b # bs)"

definition js_sort :: "('a \<Rightarrow> 'a \<Rightarrow> number) \<Rightarrow> 'a list \<Rightarrow> 'a list" where
  "js_sort compare xs = foldr (insert_by compare) xs []"

text \<open>\<open>xs.slice(0, end)\<close> for an integer \<open>end\<close>: a negative \<open>end\<close> counts from the back.\<close>

definition slice0 :: "'a list \<Rightarrow> int \<Rightarrow> 'a list" where
  "slice0 xs end = (if end < 0 then take (nat (int (length xs) + end)) xs else take (nat end) xs)"

text \<open>
  \<open>parseFloat(x.toFixed(4))\<close>: \<open>toFixed\<close> takes the sign off, picks the integer \<open>n\<close> with
  \<open>n / 10^4\<close> closest to the value (the larger one of two), and prints the value itself
  from \<open>10^21\<close> on; \<open>parseFloat\<close> reads the digits back.
\<close>

definition to_fixed4 :: "number \<Rightarrow> number" where
  "to_fixed4 v =
     (case v of
        Num x \<Rightarrow>
          if 10 ^ 21 \<le> \<bar>x\<bar> then Num x
          else Num (sgn x * real_of_int \<lfloor>\<bar>x\<bar> * 10000 + 1 / 2\<rfloor> / 10000)
      | _ \<Rightarrow> v)"

text \<open>\<open>xs.find(p)\<close> is \<^const>\<open>List.find\<close>; \<open>xs.findIndex(p)\<close> with \<open>None\<close> for \<open>-1\<close>.\<close>

fun findIndex :: "('a \<Rightarrow> bool) \<Rightarrow> 'a list \<Rightarrow> nat option" where
  "findIndex p [] = None"
| "findIndex p (x # xs) = (if p x then Some 0 else map_option Suc (findIndex p xs))"

text \<open>\<open>matrix[i]\<close> as a value: \<open>None\<close> is \<open>undefined\<close>.\<close>

definition row_at :: "'a list \<Rightarrow> nat \<Rightarrow> 'a option" where
  "row_at matrix i = (if i < length matrix then Some (matrix ! i) else None)"

section \<open>recommendation.ts: the local CSV dataset\<close>

text \<open>
  The module state: \<open>moviesCache\<close>, \<open>tfidfMatrix\<close>, \<open>vocabulary\<close>, each \<open>null\<close> at the start.
  The dataset file is a parameter of every function that may read it: the list of its
  parsed records, with the fields as they stand in the file.
\<close>

record csv_state =
  csv_moviesCache :: "movie list option"
  csv_tfidfMatrix :: "number list list option"
  csv_vocabulary :: "string list option"


definition trim_fields :: "movie \<Rightarrow> movie" where
  "trim_fields r =
     \<lparr>movie_id = movie_id r, title = trim (title r), industry = trim (industry r),
      genre = trim (genre r), language = trim (language r), release_year = release_year r,
      overview = trim (overview r)\<rparr>"

definition loadMovies_csv :: "movie list \<Rightarrow> csv_state \<Rightarrow> movie list \<times> csv_state" where
  "loadMovies_csv dataset s =
     (case csv_moviesCache s of
        Some cached \<Rightarrow> (cached, s)
      | None \<Rightarrow>
          let loaded = map trim_fields dataset
          in (loaded, s\<lparr>csv_moviesCache := Some loaded\<rparr>))"

text \<open>
  \<^verbatim>\<open>
  if (!movies || movies.length === 0) throw new Error('Dataset is empty. ...');
  if (tfidfMatrix && vocabulary) return { matrix: tfidfMatrix, vocabulary };
  ... build, store and return ...
  \<close>
\<close>

definition buildTfIdfMatrix_csv ::
  "movie list \<Rightarrow> csv_state \<Rightarrow> (error + number list list \<times> string list) \<times> csv_state" where
  "buildTfIdfMatrix_csv movies s =
     (if length movies = 0 then (Inl EmptyCorpus, s)
      else case (csv_tfidfMatrix s, csv_vocabulary s) of
        (Some matrix, Some vocab) \<Rightarrow> (Inr (matrix, vocab), s)
      | _ \<Rightarrow>
          let vocabArray = buildVocabulary movies;
              matrix = tfidf_rows movies vocabArray
          in (Inr (matrix, vocabArray),
              s\<lparr>csv_tfidfMatrix := Some matrix, csv_vocabulary := Some vocabArray\<rparr>))"

text \<open>
  \<^verbatim>\<open>
  const normalizedTitle = title.trim().toLowerCase();
  return movies.find(movie => movie.title.toLowerCase() === normalizedTitle) || null;
  \<close>
\<close>

definition findMovieByTitle_csv :: "movie list \<Rightarrow> string \<Rightarrow> movie option" where
  "findMovieByTitle_csv movies ttl =
     (let normalizedTitle = toLowerCase (trim ttl)
      in find (\<lambda>movie. toLowerCase (title movie) = normalizedTitle) movies)"

text \<open>
  A call \<open>cosineSimilarity(vec1, vec2)\<close> of this module with a row \<open>vec2\<close> that may be
  missing: the function has no guard, so the first read \<open>vec2[0]\<close> throws; with an empty
  \<open>vec1\<close> the loop reads nothing and the result is 0.
\<close>

definition cosine_row :: "number list \<Rightarrow> number list option \<Rightarrow> error + number" where
  "cosine_row vec1 vec2 =
     (case vec2 of
        Some v2 \<Rightarrow> Inr (cosineSimilarity_csv vec1 v2)
      | None \<Rightarrow> if vec1 = [] then Inr (Num 0) else Inl TypeError)"

text \<open>
  The loop of \<open>getRecommendations\<close> over the indices of the corpus:
  \<^verbatim>\<open>
  for (let i = 0; i < movies.length; i++) {
    if (i === inputMovieIndex) continue;
    const similarity = cosineSimilarity(matrix[inputMovieIndex], matrix[i]);
    similarities.push({ movie: movies[i], score: similarity });
  }
  \<close>
\<close>

fun similarities_csv ::
  "movie list \<Rightarrow> number list list \<Rightarrow> nat \<Rightarrow> nat list \<Rightarrow> error + (movie \<times> number) list" where
  "similarities_csv movies matrix inputMovieIndex [] = Inr []"
| "similarities_csv movies matrix inputMovieIndex (i # rest) =
     (if i = inputMovieIndex then similarities_csv movies matrix inputMovieIndex rest
      else case cosine_row (matrix ! inputMovieIndex) (row_at matrix i) of
        Inl e \<Rightarrow> Inl e
      | Inr similarity \<Rightarrow>
          (case similarities_csv movies matrix inputMovieIndex rest of
             Inl e \<Rightarrow> Inl e
           | Inr others \<Rightarrow> Inr ((movies ! i, similarity) # others)))"

text \<open>The comparator \<^verbatim>\<open>(a, b) => b.score - a.score\<close>.\<close>

definition by_score :: "movie \<times> number \<Rightarrow> movie \<times> number \<Rightarrow> number" where
  "by_score a b = nsub (snd b) (snd a)"

definition getRecommendations_csv ::
  "movie list \<Rightarrow> string \<Rightarrow> int \<Rightarrow> csv_state \<Rightarrow> (error + recommendation list) \<times> csv_state" where
  "getRecommendations_csv dataset movieTitle numRecommendations s =
     (case loadMovies_csv dataset s of (movies, s1) \<Rightarrow>
        if length movies = 0 then (Inl EmptyCorpus, s1)
        else
         (case findMovieByTitle_csv movies movieTitle of
            None \<Rightarrow> (Inl NotInDataset, s1)
          | Some inputMovie \<Rightarrow>
            (case buildTfIdfMatrix_csv movies s1 of
               (Inl e, s2) \<Rightarrow> (Inl e, s2)
             | (Inr (matrix, vocab), s2) \<Rightarrow>
                 (case findIndex (\<lambda>m. movie_id m = movie_id inputMovie) movies of
                    None \<Rightarrow> (Inl NotInDataset, s2)
                  | Some inputMovieIndex \<Rightarrow>
                      if row_at matrix inputMovieIndex = None then (Inl NotInDataset, s2)
                      else
                        (case similarities_csv movies matrix inputMovieIndex [0..<length movies] of
                           Inl e \<Rightarrow> (Inl e, s2)
                         | Inr similarities \<Rightarrow>
                             (Inr (map (\<lambda>item. with_score (fst item) (to_fixed4 (snd item)))
                                     (slice0 (js_sort by_score similarities) numRecommendations)),
                              s2))))))"

subsection \<open>searchMoviesByKeyword\<close>

text \<open>\<open>x || 0\<close> on an integer.\<close>

definition or0 :: "int \<Rightarrow> int" where
  "or0 x = (if x = 0 then 0 else x)"

text \<open>
  The score of one movie: the number of query tokens that occur in its lowercased text.
  \<^verbatim>\<open>
  const haystack = `${movie.title} ${movie.genre} ${movie.overview}`.toLowerCase();
  let score = 0;
  for (const t of tokens) { if (!t) continue; if (haystack.includes(t)) score += 1; }
  \<close>
\<close>

definition keyword_score :: "string list \<Rightarrow> movie \<Rightarrow> nat" where
  "keyword_score tokens m =
     (let haystack = toLowerCase (combinedText m)
      in fold (\<lambda>t score. if t = [] then score else if includes_str haystack t then score + 1 else score)
           tokens 0)"

text \<open>
  The loop over the corpus: the industry filter comes first, then the score, and only a
  positive score is pushed.
\<close>

fun keyword_scored :: "string list \<Rightarrow> string list \<Rightarrow> movie list \<Rightarrow> (movie \<times> nat) list" where
  "keyword_scored tokens industrySet [] = []"
| "keyword_scored tokens industrySet (m # movies) =
     (if industrySet \<noteq> [] \<and> toLowerCase (industry m) \<notin> set industrySet
      then keyword_scored tokens industrySet movies
      else
        let score = keyword_score tokens m
        in if score > 0 then (m, score) # keyword_scored tokens industrySet movies
           else keyword_scored tokens industrySet movies)"

text \<open>
  \<^verbatim>\<open>
  (a, b) => { if (b.score !== a.score) return b.score - a.score;
              return (b.movie.release_year || 0) - (a.movie.release_year || 0); }
  \<close>
\<close>

definition by_score_then_year :: "movie \<times> nat \<Rightarrow> movie \<times> nat \<Rightarrow> number" where
  "by_score_then_year a b =
     (if snd b \<noteq> snd a then Num (real (snd b) - real (snd a))
      else Num (real_of_int (or0 (release_year (fst b)) - or0 (release_year (fst a)))))"

definition searchMoviesByKeyword ::
  "movie list \<Rightarrow> string \<Rightarrow> string list \<Rightarrow> int \<Rightarrow> csv_state \<Rightarrow> movie list \<times> csv_state" where
  "searchMoviesByKeyword dataset query industries limit s =
     (let q = toLowerCase (trim query) in
      if q = [] then ([], s)
      else case loadMovies_csv dataset s of (movies, s1) \<Rightarrow>
        if length movies = 0 then ([], s1)
        else
          let tokens = tokenize q in
          if length tokens = 0 then ([], s1)
          else
            let industrySet = filter (\<lambda>x. x \<noteq> []) (map (\<lambda>x. toLowerCase (trim x)) industries);
                scored = keyword_scored tokens industrySet movies
            in (map fst (slice0 (js_sort by_score_then_year scored) (max 1 (min limit 50))), s1))"

section \<open>Notions used to state the ranking properties\<close>

text \<open>
  The cosine of two vectors of reals, the second at least as long as the first: what
  \<open>cosineSimilarity\<close> computes on finite numbers.
\<close>

definition cosine_real :: "real list \<Rightarrow> real list \<Rightarrow> real" where
  "cosine_real xs ys =
     (if sq_norm xs = 0 \<or> sq_norm (take (length xs) ys) = 0 then 0
      else (\<Sum>i<length xs. xs ! i * ys ! i) / (sqrt (sq_norm xs) * sqrt (sq_norm (take (length xs) ys))))"

text \<open>
  The row of the matrix for the movie at position \<open>i\<close>, with the weights of the
  specification, and the similarity of two rows.
\<close>

definition weights :: "movie list \<Rightarrow> nat \<Rightarrow> real list" where
  "weights movies i =
     map (\<lambda>w. weight w (combinedText (movies ! i)) (map combinedText movies)) (buildVocabulary movies)"

definition similarity :: "movie list \<Rightarrow> nat \<Rightarrow> nat \<Rightarrow> real" where
  "similarity movies k i = cosine_real (weights movies k) (weights movies i)"







text \<open>
  The states of recommendation.ts that its functions reach: a cached matrix and
  vocabulary are the ones built from the cached corpus.
\<close>

definition csv_cache_ok :: "csv_state \<Rightarrow> bool" where
  "csv_cache_ok s =
     (case csv_moviesCache s of
        None \<Rightarrow> csv_tfidfMatrix s = None \<and> csv_vocabulary s = None
      | Some ms \<Rightarrow>
          (csv_tfidfMatrix s = None \<and> csv_vocabulary s = None) \<or>
          (csv_tfidfMatrix s = Some (tfidf_rows ms (buildVocabulary ms)) \<and>
           csv_vocabulary s = Some (buildVocabulary ms)))"


section \<open>Example corpora\<close>

text \<open>The scenario of the specification, and movies that carry a title only.\<close>

definition inception :: movie where
  "inception = \<lparr>movie_id = 1, title = ''Inception'', industry = ''Hollywood'', genre = ''Action Sci-Fi'',
     language = ''English'', release_year = 2010, overview = ''a thief steals secrets''\<rparr>"

definition the_thief :: movie where
  "the_thief = \<lparr>movie_id = 2, title = ''The Thief'', industry = ''Hollywood'', genre = ''Crime'',
     language = ''English'', release_year = 1981, overview = ''a thief steals jewels''\<rparr>"

definition romance_story :: movie where
  "romance_story = \<lparr>movie_id = 3, title = ''Romance Story'', industry = ''Bollywood'', genre = ''Romance'',
     language = ''Hindi'', release_year = 2005, overview = ''two people fall in love''\<rparr>"

definition scenario :: "movie list" where
  "scenario = [inception, the_thief, romance_story]"


definition titled :: "int \<Rightarrow> string \<Rightarrow> movie" where
  "titled i t = \<lparr>movie_id = i, title = t, industry = '''', genre = '''', language = '''',
     release_year = 0, overview = ''''\<rparr>"

definition ctor_corpus :: "movie list" where
  "ctor_corpus = [titled 1 ''Constructor'', titled 2 ''Inception'', titled 3 ''Interstellar'']"

section \<open>recommendation-grok.ts: the corpus from a remote provider\<close>

text \<open>
  The interface \<open>GrokMovie\<close> of the provider; its \<open>movie_id\<close> is optional.
\<close>

record grok_movie =
  g_movie_id :: "int option"
  g_title :: string
  g_industry :: string
  g_genre :: string
  g_language :: string
  g_release_year :: int
  g_overview :: string

text \<open>
  The module state. \<open>moviesCache\<close> holds a reference to an array that
  \<open>getRecommendations\<close> extends in place and that \<open>buildTfIdfMatrix\<close> compares by
  identity (\<open>moviesCache === movies\<close>), so arrays live in a store and are passed by
  reference; \<open>next_ref\<close> is the next unused reference.

  What the outside world supplies is a parameter of the function that asks for it:
  \<open>now\<close> is \<open>Date.now()\<close> in milliseconds (one reading per call), \<open>provider\<close> is what
  \<open>getAllMoviesFromGrok()\<close> returns if it is called, and \<open>lookup\<close> is what
  \<open>searchMovieInGrok(movieTitle)\<close> returns if it is called.
\<close>

record state =
  heap :: "nat \<Rightarrow> movie list"
  next_ref :: nat
  moviesCache :: "nat option"
  tfidfMatrix :: "number list list option"
  vocabulary :: "string list option"
  cacheTimestamp :: int

definition init :: state where
  "init = \<lparr>heap = (\<lambda>r. []), next_ref = 0, moviesCache = None, tfidfMatrix = None,
            vocabulary = None, cacheTimestamp = 0\<rparr>"

definition CACHE_DURATION :: int where
  "CACHE_DURATION = 60 * 60 * 1000"

text \<open>
  \<^verbatim>\<open>
  moviesCache = grokMovies.map((movie, index) => ({
    movie_id: movie.movie_id || index + 1,
    title: (movie.title || '').trim(), ...
    release_year: movie.release_year, ... }));
  \<close>
\<close>

definition from_grok :: "grok_movie \<Rightarrow> nat \<Rightarrow> movie" where
  "from_grok g index =
     \<lparr>movie_id = (case g_movie_id g of
                     Some i \<Rightarrow> if i = 0 then int index + 1 else i
                   | None \<Rightarrow> int index + 1),
      title = trim (g_title g), industry = trim (g_industry g), genre = trim (g_genre g),
      language = trim (g_language g), release_year = g_release_year g,
      overview = trim (g_overview g)\<rparr>"

definition alloc :: "movie list \<Rightarrow> state \<Rightarrow> nat \<times> state" where
  "alloc arr s = (next_ref s, s\<lparr>heap := (heap s)(next_ref s := arr), next_ref := Suc (next_ref s)\<rparr>)"

definition loadMovies :: "int \<Rightarrow> grok_movie list \<Rightarrow> state \<Rightarrow> nat \<times> state" where
  "loadMovies now provider s =
     (case (if now - cacheTimestamp s < CACHE_DURATION then moviesCache s else None) of
        Some cached \<Rightarrow> (cached, s)
      | None \<Rightarrow>
          let grokMovies = provider;
              arr = (if length grokMovies = 0 then []
                     else map (\<lambda>(movie, index). from_grok movie index)
                            (zip grokMovies [0..<length grokMovies]))
          in case alloc arr s of
               (r, s') \<Rightarrow> (r, s'\<lparr>moviesCache := Some r, cacheTimestamp := now\<rparr>))"

text \<open>
  \<^verbatim>\<open>
  if (!movies || movies.length === 0) throw new Error('Dataset is empty. ...');
  if (tfidfMatrix && vocabulary && moviesCache === movies &&
      tfidfMatrix.length === movies.length) return { matrix: tfidfMatrix, vocabulary };
  ... build, store and return ...
  \<close>
\<close>

definition buildTfIdfMatrix ::
  "nat \<Rightarrow> state \<Rightarrow> (error + number list list \<times> string list) \<times> state" where
  "buildTfIdfMatrix movies s =
     (if length (heap s movies) = 0 then (Inl EmptyCorpus, s)
      else case (tfidfMatrix s, vocabulary s) of
        (Some matrix, Some vocab) \<Rightarrow>
          if moviesCache s = Some movies \<and> length matrix = length (heap s movies)
          then (Inr (matrix, vocab), s)
          else
            let vocabArray = buildVocabulary (heap s movies);
                built = tfidf_rows (heap s movies) vocabArray
            in (Inr (built, vocabArray), s\<lparr>tfidfMatrix := Some built, vocabulary := Some vocabArray\<rparr>)
      | _ \<Rightarrow>
          let vocabArray = buildVocabulary (heap s movies);
              built = tfidf_rows (heap s movies) vocabArray
          in (Inr (built, vocabArray), s\<lparr>tfidfMatrix := Some built, vocabulary := Some vocabArray\<rparr>))"

text \<open>
  \<^verbatim>\<open>
  const normalizedTitle = (title || '').trim().toLowerCase();
  if (!normalizedTitle) return null;
  const exact = movies.find((movie) =>
    (movie.title || '').trim().toLowerCase() === normalizedTitle) || null;
  if (exact) return exact;
  const partial = movies.find((movie) =>
    (movie.title || '').trim().toLowerCase().includes(normalizedTitle)) || null;
  return partial;
  \<close>
\<close>

definition findMovieByTitle :: "movie list \<Rightarrow> string \<Rightarrow> movie option" where
  "findMovieByTitle movies ttl =
     (let normalizedTitle = toLowerCase (trim ttl) in
      if normalizedTitle = [] then None
      else case find (\<lambda>movie. toLowerCase (trim (title movie)) = normalizedTitle) movies of
        Some exact \<Rightarrow> Some exact
      | None \<Rightarrow>
          find (\<lambda>movie. includes_str (toLowerCase (trim (title movie))) normalizedTitle) movies)"

text \<open>
  Title resolution as the specification words it: normalize both sides, take the first
  item whose title equals the query, else the first item whose title contains the query
  as a substring, else nothing.
\<close>

definition resolve_spec :: "movie list \<Rightarrow> string \<Rightarrow> movie option" where
  "resolve_spec items query =
     (case find (\<lambda>item. toLowerCase (trim (title item)) = toLowerCase (trim query)) items of
        Some item \<Rightarrow> Some item
      | None \<Rightarrow> find (\<lambda>item. sublist (toLowerCase (trim query)) (toLowerCase (trim (title item)))) items)"

text \<open>
  The movie appended when the title is not in the corpus and the provider knows it:
  \<^verbatim>\<open>
  const newMovie: Movie = { movie_id: movies.length + 1, title: grokMovie.title.trim(), ... };
  movies.push(newMovie);
  inputMovie = newMovie;
  tfidfMatrix = null;
  vocabulary = null;
  \<close>
\<close>

definition new_movie :: "grok_movie \<Rightarrow> nat \<Rightarrow> movie" where
  "new_movie g len =
     \<lparr>movie_id = int len + 1, title = trim (g_title g), industry = trim (g_industry g),
      genre = trim (g_genre g), language = trim (g_language g),
      release_year = g_release_year g, overview = trim (g_overview g)\<rparr>"

definition append_and_invalidate :: "nat \<Rightarrow> movie \<Rightarrow> state \<Rightarrow> state" where
  "append_and_invalidate movies newMovie s =
     s\<lparr>heap := (heap s)(movies := heap s movies @ [newMovie]),
       tfidfMatrix := None, vocabulary := None\<rparr>"

text \<open>
  The loop of \<open>getRecommendations\<close> in this module skips a missing row:
  \<^verbatim>\<open>
  for (let i = 0; i < movies.length; i++) {
    if (i === inputMovieIndex) continue;
    if (!matrix[inputMovieIndex] || !matrix[i]) continue;
    const similarity = cosineSimilarity(matrix[inputMovieIndex], matrix[i]);
    similarities.push({ movie: movies[i], score: similarity });
  }
  \<close>
\<close>

fun similarities ::
  "movie list \<Rightarrow> number list list \<Rightarrow> nat \<Rightarrow> nat list \<Rightarrow> (movie \<times> number) list" where
  "similarities movies matrix inputMovieIndex [] = []"
| "similarities movies matrix inputMovieIndex (i # rest) =
     (if i = inputMovieIndex then similarities movies matrix inputMovieIndex rest
      else if row_at matrix inputMovieIndex = None \<or> row_at matrix i = None
        then similarities movies matrix inputMovieIndex rest
      else (movies ! i, cosineSimilarity (row_at matrix inputMovieIndex) (row_at matrix i))
             # similarities movies matrix inputMovieIndex rest)"

definition rank ::
  "movie list \<Rightarrow> number list list \<Rightarrow> nat \<Rightarrow> int \<Rightarrow> recommendation list" where
  "rank movies matrix inputMovieIndex numRecommendations =
     map (\<lambda>item. with_score (fst item) (to_fixed4 (snd item)))
       (slice0 (js_sort by_score (similarities movies matrix inputMovieIndex [0..<length movies]))
          numRecommendations)"

definition getRecommendations ::
  "int \<Rightarrow> grok_movie list \<Rightarrow> grok_movie option \<Rightarrow> string \<Rightarrow> int \<Rightarrow> state
     \<Rightarrow> (error + recommendation list) \<times> state" where
  "getRecommendations now provider lookup movieTitle numRecommendations s =
     (case loadMovies now provider s of (movies, s1) \<Rightarrow>
        if length (heap s1 movies) = 0 then (Inl EmptyCorpus, s1)
        else
          (case (case findMovieByTitle (heap s1 movies) movieTitle of
                   Some found \<Rightarrow> Inr (found, s1)
                 | None \<Rightarrow>
                     (case lookup of
                        Some grokMovie \<Rightarrow>
                          let newMovie = new_movie grokMovie (length (heap s1 movies))
                          in Inr (newMovie, append_and_invalidate movies newMovie s1)
                      | None \<Rightarrow> Inl NotFound)) of
             Inl e \<Rightarrow> (Inl e, s1)
           | Inr (inputMovie, s2) \<Rightarrow>
               (case buildTfIdfMatrix movies s2 of
                  (Inl e, s3) \<Rightarrow> (Inl e, s3)
                | (Inr (matrix, vocab), s3) \<Rightarrow>
                    (case findIndex (\<lambda>m. toLowerCase (title m) = toLowerCase (title inputMovie))
                            (heap s3 movies) of
                       None \<Rightarrow> (Inl NotInDataset, s3)
                     | Some inputMovieIndex \<Rightarrow>
                         (Inr (rank (heap s3 movies) matrix inputMovieIndex numRecommendations), s3)))))"

text \<open>
  The provider's lists in which every item carries no id, the id 0, or its position
  counted from 1 (the bundled sample data is numbered so), and the corpora numbered
  \<open>1..n\<close> in order.
\<close>

definition position_ids :: "grok_movie list \<Rightarrow> bool" where
  "position_ids provider =
     (\<forall>i < length provider.
        g_movie_id (provider ! i) = None \<or> g_movie_id (provider ! i) = Some 0 \<or>
        g_movie_id (provider ! i) = Some (int i + 1))"

definition numbered :: "movie list \<Rightarrow> bool" where
  "numbered ms = (map movie_id ms = map (\<lambda>i. int i + 1) [0..<length ms])"

text \<open>
  The states the module reaches from its initial state through its exported functions
  (\<open>getMoviesByIndustry\<close> and \<open>getMoviesByGenre\<close> change the state as \<open>loadMovies\<close>
  does), when the provider's lists are numbered by position.
\<close>

inductive reachable :: "state \<Rightarrow> bool" where
  reachable_init: "reachable init"
| reachable_load:
    "reachable s \<Longrightarrow> position_ids provider \<Longrightarrow> reachable (snd (loadMovies now provider s))"
| reachable_recommend:
    "reachable s \<Longrightarrow> position_ids provider \<Longrightarrow>
     reachable (snd (getRecommendations now provider lookup movieTitle numRecommendations s))"

text \<open>The invariant of the reachable states: the cached corpus is numbered.\<close>

definition corpus_numbered :: "state \<Rightarrow> bool" where
  "corpus_numbered s = (case moviesCache s of None \<Rightarrow> True | Some r \<Rightarrow> numbered (heap s r))"


text \<open>
  Items of the provider that carry a title only, and the states of three runs: a first
  recommendation on a one-movie corpus; a second one after the cache has expired and the
  provider has returned another one-movie corpus; a recommendation for a title that only
  the single-item lookup knows.
\<close>

definition grok_titled :: "string \<Rightarrow> grok_movie" where
  "grok_titled t = \<lparr>g_movie_id = None, g_title = t, g_industry = '''', g_genre = '''',
     g_language = '''', g_release_year = 0, g_overview = ''''\<rparr>"



definition first_call :: state where
  "first_call = snd (getRecommendations 0 [grok_titled ''aaa''] None ''aaa'' 10 init)"

definition second_call :: state where
  "second_call = snd (getRecommendations 3600000 [grok_titled ''zz''] None ''zz'' 10 first_call)"


definition after_append :: state where
  "after_append = snd (getRecommendations 0 [grok_titled ''aaa''] (Some (grok_titled ''bbb'')) ''bbb'' 5 init)"

section \<open>Facts about strings\<close>

lemmas char_eval =
  is_space_def is_word_def is_upper_def is_alphanumeric_def lower_char_def toLowerCase_def
  replace_nonword_def split_whitespace_def char_of_def bit_Suc_0_iff

lemma of_char_lower_char:
  "of_char (lower_char c) = (if is_upper c then of_char c + 32 else (of_char c :: nat))"
  by (auto simp add: lower_char_def is_upper_def Let_def)

lemma is_space_lower_char [simp]: "is_space (lower_char c) = is_space c"
  by (auto simp add: is_space_def of_char_lower_char is_upper_def Let_def)

lemma not_upper_lower_char: "\<not> is_upper (lower_char c)"
  by (auto simp add: of_char_lower_char is_upper_def[of "lower_char c"] Let_def)
     (auto simp: is_upper_def)

lemma lower_char_idem [simp]: "lower_char (lower_char c) = lower_char c"
  using not_upper_lower_char[of c] by (simp add: lower_char_def[of "lower_char c"])

lemma toLowerCase_idem [simp]: "toLowerCase (toLowerCase s) = toLowerCase s"
  by (simp add: toLowerCase_def)

lemma split_ws_words:
  "filter (\<lambda>w. w \<noteq> []) (split_ws False cur s) =
     filter (\<lambda>w. w \<noteq> []) [cur @ takeWhile (\<lambda>x. \<not> is_space x) s]
       @ words_of (dropWhile (\<lambda>x. \<not> is_space x) s)"
  "filter (\<lambda>w. w \<noteq> []) (split_ws True [] s) = words_of s"
proof (induction s arbitrary: cur)
  case Nil
  { case 1 show ?case by simp }
  { case 2 show ?case by simp }
next
  case (Cons c cs)
  { case 1
    show ?case
    proof (cases "is_space c")
      case True
      then show ?thesis using Cons.IH(2) by simp
    next
      case False
      then show ?thesis using Cons.IH(1)[of "cur @ [c]"] by simp
    qed }
  { case 2
    show ?case
    proof (cases "is_space c")
      case True
      then show ?thesis using Cons.IH(2) by simp
    next
      case False
      then show ?thesis using Cons.IH(1)[of "[c]"] by simp
    qed }
qed

lemma filter_long_nonempty:
  "filter (\<lambda>w. length w > (2::nat)) xs = filter (\<lambda>w. length w > 2) (filter (\<lambda>w. w \<noteq> []) xs)"
  by (induction xs) auto

lemma tokenize_words:
  "tokenize text = filter (\<lambda>w. length w > 2) (words_of (replace_nonword (toLowerCase text)))"
proof -
  let ?t = "replace_nonword (toLowerCase text)"
  have "filter (\<lambda>w. w \<noteq> []) (split_ws False [] ?t) = words_of ?t"
  proof (cases ?t)
    case Nil
    then show ?thesis by simp
  next
    case (Cons c cs)
    show ?thesis
    proof (cases "is_space c")
      case True
      then show ?thesis unfolding Cons using split_ws_words(2)[of cs] by simp
    next
      case False
      then show ?thesis unfolding Cons using split_ws_words(1)[of "[c]" cs] by simp
    qed
  qed
  then show ?thesis
    unfolding tokenize_def split_whitespace_def
    by (subst filter_long_nonempty) simp
qed


section \<open>Facts about cosine similarity\<close>





lemma sq_norm_nth: "sq_norm v = (\<Sum>i<length v. (v ! i)\<^sup>2)"
  by (simp add: sq_norm_def sum_list_sum_nth atLeast0LessThan)


lemma sq_norm_take_nth: "n \<le> length v \<Longrightarrow> sq_norm (take n v) = (\<Sum>i<n. (v ! i)\<^sup>2)"
  by (simp add: sq_norm_nth)







lemma sq_norm_replicate_0 [simp]: "sq_norm (replicate n 0) = 0"
  by (induction n) (simp_all add: sq_norm_def)


section \<open>Facts about the TF-IDF vectors\<close>








lemma count_token_prototype:
  assumes "w \<in> set prototype_keys" "obj w = None \<or> obj w = Some JText"
  shows "count_token t obj w = None \<or> count_token t obj w = Some JText"
  using assms
  by (auto simp add: count_token_def set_prop_def get_prop_def or_zero_def plus_one_def)

lemma fold_count_token_prototype:
  assumes "w \<in> set prototype_keys" "obj w = None \<or> obj w = Some JText"
  shows "fold count_token ts obj w = None \<or> fold count_token ts obj w = Some JText"
  using assms(2)
proof (induction ts arbitrary: obj)
  case Nil
  then show ?case by simp
next
  case (Cons t ts)
  have "count_token t obj w = None \<or> count_token t obj w = Some JText"
    using count_token_prototype[of w obj t] assms(1) Cons.prems by blast
  with Cons.IH[of "count_token t obj"] show ?case by simp
qed

lemma termFreq_read_prototype:
  assumes "w \<in> set prototype_keys"
  shows "to_number (or_zero (get_prop (fold count_token ts Map.empty) w)) = NaN"
  using fold_count_token_prototype[of w Map.empty ts] assms
  by (auto simp add: get_prop_def or_zero_def to_number_def)

lemma calculateTfIdf_prototype_key:
  assumes "tokenize doc \<noteq> []" "i < length vocab" "vocab ! i \<in> set prototype_keys"
  shows "calculateTfIdf doc vocab docs ! i = NaN"
  using assms by (simp add: calculateTfIdf_def Let_def termFreq_read_prototype)

section \<open>Facts about sorting\<close>

lemma set_insert_by [simp]: "set (insert_by cmp a xs) = insert a (set xs)"
  by (induction xs) auto

lemma length_insert_by [simp]: "length (insert_by cmp a xs) = Suc (length xs)"
  by (induction xs) auto

lemma js_sort_simps [simp]:
  "js_sort cmp [] = []"
  "js_sort cmp (a # xs) = insert_by cmp a (js_sort cmp xs)"
  by (simp_all add: js_sort_def)

lemma set_js_sort [simp]: "set (js_sort cmp xs) = set xs"
  by (induction xs) simp_all

lemma length_js_sort [simp]: "length (js_sort cmp xs) = length xs"
  by (induction xs) simp_all

lemma distinct_insert_by: "distinct (insert_by cmp a xs) = (a \<notin> set xs \<and> distinct xs)"
  by (induction xs) auto

lemma distinct_js_sort [simp]: "distinct (js_sort cmp xs) = distinct xs"
  by (induction xs) (simp_all add: distinct_insert_by)









section \<open>Facts about recommendation.ts\<close>





lemma distinct_fold_set_add: "distinct vs \<Longrightarrow> distinct (fold set_add ts vs)"
  by (induction ts arbitrary: vs) (auto simp add: set_add_def)

lemma distinct_fold_vocab:
  "distinct vs \<Longrightarrow>
   distinct (fold (\<lambda>movie vocabSet. fold set_add (tokenize (combinedText movie)) vocabSet) movies vs)"
  by (induction movies arbitrary: vs) (auto simp add: distinct_fold_set_add)

lemma buildVocabulary_sorted_distinct:
  "sorted (buildVocabulary movies) \<and> distinct (buildVocabulary movies)"
  by (simp add: buildVocabulary_def distinct_fold_vocab)




lemma loadMovies_csv_cache:
  "csv_moviesCache (snd (loadMovies_csv dataset s)) = Some (fst (loadMovies_csv dataset s))"
  by (simp add: loadMovies_csv_def Let_def split: option.splits)

lemma loadMovies_csv_ok:
  "csv_cache_ok s \<Longrightarrow> csv_cache_ok (snd (loadMovies_csv dataset s))"
  by (auto simp add: loadMovies_csv_def csv_cache_ok_def Let_def split: option.splits)

lemma buildTfIdfMatrix_csv_result:
  assumes "csv_cache_ok s" "csv_moviesCache s = Some movies" "movies \<noteq> []"
  shows "fst (buildTfIdfMatrix_csv movies s) =
           Inr (tfidf_rows movies (buildVocabulary movies), buildVocabulary movies)"
    and "csv_cache_ok (snd (buildTfIdfMatrix_csv movies s))"
    and "csv_moviesCache (snd (buildTfIdfMatrix_csv movies s)) = Some movies"
  using assms
  by (auto simp add: buildTfIdfMatrix_csv_def csv_cache_ok_def Let_def split: option.splits)










lemma length_tfidf_rows [simp]: "length (tfidf_rows movies vocab) = length movies"
  by (simp add: tfidf_rows_def)

lemma length_weights [simp]: "length (weights movies i) = length (buildVocabulary movies)"
  by (simp add: weights_def)

















subsection \<open>Evaluation on the example corpora\<close>







lemma titled_sel [simp]: "title (titled i t) = t" "movie_id (titled i t) = i"
  by (simp_all add: titled_def)















lemma getRecommendations_csv_state:
  "snd (getRecommendations_csv dataset movieTitle n s) =
     (let movies = fst (loadMovies_csv dataset s); s1 = snd (loadMovies_csv dataset s) in
      if movies = [] then s1
      else case findMovieByTitle_csv movies movieTitle of
        None \<Rightarrow> s1
      | Some q \<Rightarrow> snd (buildTfIdfMatrix_csv movies s1))"
  by (auto simp add: getRecommendations_csv_def split_beta Let_def
      split: option.splits sum.splits prod.splits)

lemma getRecommendations_csv_ok:
  assumes "csv_cache_ok s"
  shows "csv_cache_ok (snd (getRecommendations_csv dataset movieTitle n s))"
proof -
  have s1: "csv_cache_ok (snd (loadMovies_csv dataset s))"
    using assms by (rule loadMovies_csv_ok)
  have c: "csv_moviesCache (snd (loadMovies_csv dataset s)) = Some (fst (loadMovies_csv dataset s))"
    by (rule loadMovies_csv_cache)
  show ?thesis
    unfolding getRecommendations_csv_state
    using s1 buildTfIdfMatrix_csv_result(2)[OF s1 c]
    by (auto simp add: Let_def split: option.splits)
qed

lemma searchMoviesByKeyword_ok:
  assumes "csv_cache_ok s"
  shows "csv_cache_ok (snd (searchMoviesByKeyword dataset query industries limit s))"
  using assms loadMovies_csv_ok[OF assms, of dataset]
  by (auto simp add: searchMoviesByKeyword_def Let_def split_beta)


section \<open>Facts about recommendation-grok.ts\<close>


lemma starts_with_prefix: "starts_with hay needle = prefix needle hay"
  by (induction hay needle rule: starts_with.induct) auto

lemma includes_str_sublist: "includes_str hay needle = sublist needle hay"
  by (induction hay) (auto simp add: starts_with_prefix sublist_Cons_right)

lemma dropWhile_space_lower:
  "dropWhile is_space (map lower_char s) = map lower_char (dropWhile is_space s)"
  by (induction s) auto

lemma trim_toLowerCase: "trim (toLowerCase s) = toLowerCase (trim s)"
  by (simp add: trim_def toLowerCase_def dropWhile_space_lower rev_map)

lemma findMovieByTitle_blank:
  "toLowerCase (trim query) = [] \<Longrightarrow> findMovieByTitle movies query = None"
  by (simp add: findMovieByTitle_def)

lemma findMovieByTitle_resolve:
  "toLowerCase (trim query) \<noteq> [] \<Longrightarrow> findMovieByTitle movies query = resolve_spec movies query"
  by (simp add: findMovieByTitle_def resolve_spec_def includes_str_sublist Let_def split: option.splits)

lemma findMovieByTitle_case:
  assumes "toLowerCase q1 = toLowerCase q2"
  shows "findMovieByTitle movies q1 = findMovieByTitle movies q2"
proof -
  have "toLowerCase (trim q1) = toLowerCase (trim q2)"
    using assms by (simp add: trim_toLowerCase[symmetric])
  then show ?thesis by (simp add: findMovieByTitle_def)
qed

lemma resolve_scenario:
  "findMovieByTitle scenario ''INCEPTION'' = Some inception"
  "findMovieByTitle scenario ''thief'' = Some the_thief"
  "findMovieByTitle scenario ''  '' = None"
  "resolve_spec scenario ''  '' = Some inception"
  by (simp_all add: findMovieByTitle_def resolve_spec_def scenario_def inception_def the_thief_def
        romance_story_def trim_def char_eval)


lemma empty_load:
  "loadMovies 0 [] init = (0, init\<lparr>heap := (heap init)(0 := []), next_ref := Suc 0,
      moviesCache := Some 0, cacheTimestamp := 0\<rparr>)"
  by (simp add: loadMovies_def init_def alloc_def CACHE_DURATION_def)

lemma numbered_Nil [simp]: "numbered []"
  by (simp add: numbered_def)

lemma numbered_from_grok:
  assumes "position_ids provider"
  shows "numbered (map (\<lambda>(movie, index). from_grok movie index) (zip provider [0..<length provider]))"
  unfolding numbered_def
proof (rule nth_equalityI)
  show "length (map movie_id (map (\<lambda>(movie, index). from_grok movie index) (zip provider [0..<length provider]))) =
        length (map (\<lambda>i. int i + 1)
          [0..<length (map (\<lambda>(movie, index). from_grok movie index) (zip provider [0..<length provider]))])"
    by simp
next
  fix i
  assume "i < length (map movie_id (map (\<lambda>(movie, index). from_grok movie index) (zip provider [0..<length provider])))"
  then have i: "i < length provider" by simp
  have "movie_id (from_grok (provider ! i) i) = int i + 1"
    using assms i by (auto simp add: position_ids_def from_grok_def split: option.splits)
  then show "map movie_id (map (\<lambda>(movie, index). from_grok movie index) (zip provider [0..<length provider])) ! i =
        map (\<lambda>i. int i + 1)
          [0..<length (map (\<lambda>(movie, index). from_grok movie index) (zip provider [0..<length provider]))] ! i"
    using i by simp
qed

lemma numbered_append:
  "numbered ms \<Longrightarrow> numbered (ms @ [new_movie g (length ms)])"
  by (simp add: numbered_def new_movie_def)

lemma numbered_distinct: "numbered ms \<Longrightarrow> distinct (map movie_id ms)"
  by (simp add: numbered_def distinct_map inj_on_def)

lemma loadMovies_cache: "moviesCache (snd (loadMovies now provider s)) = Some (fst (loadMovies now provider s))"
  by (auto simp add: loadMovies_def alloc_def Let_def split: option.splits if_splits)

lemma loadMovies_numbered:
  assumes "corpus_numbered s" "position_ids provider"
  shows "corpus_numbered (snd (loadMovies now provider s))"
  using assms numbered_from_grok[OF assms(2)]
  by (auto simp add: loadMovies_def alloc_def Let_def corpus_numbered_def split: option.splits if_splits)

lemma buildTfIdfMatrix_frame:
  "heap (snd (buildTfIdfMatrix movies s)) = heap s"
  "moviesCache (snd (buildTfIdfMatrix movies s)) = moviesCache s"
  by (auto simp add: buildTfIdfMatrix_def Let_def split: option.splits)

lemma buildTfIdfMatrix_numbered:
  "corpus_numbered s \<Longrightarrow> corpus_numbered (snd (buildTfIdfMatrix movies s))"
  by (simp add: corpus_numbered_def buildTfIdfMatrix_frame split: option.splits)

lemma append_numbered:
  assumes "corpus_numbered s" "moviesCache s = Some movies"
  shows "corpus_numbered (append_and_invalidate movies (new_movie g (length (heap s movies))) s)"
  using assms by (simp add: corpus_numbered_def append_and_invalidate_def numbered_append)

lemma getRecommendations_state:
  "snd (getRecommendations now provider lookup movieTitle n s) =
     (let movies = fst (loadMovies now provider s); s1 = snd (loadMovies now provider s) in
      if heap s1 movies = [] then s1
      else case findMovieByTitle (heap s1 movies) movieTitle of
        Some found \<Rightarrow> snd (buildTfIdfMatrix movies s1)
      | None \<Rightarrow>
         (case lookup of
            None \<Rightarrow> s1
          | Some g \<Rightarrow> snd (buildTfIdfMatrix movies
                (append_and_invalidate movies (new_movie g (length (heap s1 movies))) s1))))"
  by (auto simp add: getRecommendations_def split_beta Let_def split: option.splits sum.splits prod.splits)

lemma getRecommendations_numbered:
  assumes "corpus_numbered s" "position_ids provider"
  shows "corpus_numbered (snd (getRecommendations now provider lookup movieTitle n s))"
proof -
  have s1: "corpus_numbered (snd (loadMovies now provider s))"
    using assms by (rule loadMovies_numbered)
  have c: "moviesCache (snd (loadMovies now provider s)) = Some (fst (loadMovies now provider s))"
    by (rule loadMovies_cache)
  show ?thesis
    unfolding getRecommendations_state
    using s1 append_numbered[OF s1 c]
    by (auto simp add: Let_def buildTfIdfMatrix_numbered split: option.splits)
qed

lemma reachable_numbered: "reachable s \<Longrightarrow> corpus_numbered s"
proof (induction rule: reachable.induct)
  case reachable_init
  show ?case by (simp add: corpus_numbered_def init_def)
next
  case (reachable_load s provider now)
  then show ?case by (simp add: loadMovies_numbered)
next
  case (reachable_recommend s provider now lookup movieTitle numRecommendations)
  then show ?case by (simp add: getRecommendations_numbered)
qed


lemma from_grok_titled: "from_grok (grok_titled t) i = titled (int i + 1) (trim t)"
  by (simp add: from_grok_def grok_titled_def titled_def trim_def)

lemma new_movie_titled: "new_movie (grok_titled t) n = titled (int n + 1) (trim t)"
  by (simp add: new_movie_def grok_titled_def titled_def trim_def)

lemma trim_plain: "trim ''aaa'' = ''aaa''" "trim ''bbb'' = ''bbb''" "trim ''zz'' = ''zz''"
  by (simp_all add: trim_def char_eval)

lemma lower_plain:
  "toLowerCase ''aaa'' = ''aaa''" "toLowerCase ''bbb'' = ''bbb''" "toLowerCase ''zz'' = ''zz''"
  by (simp_all add: char_eval)

lemma tokens_plain:
  "tokenize (combinedText (titled i ''aaa'')) = [''aaa'']"
  "tokenize (combinedText (titled i ''zz'')) = []"
  by (simp_all add: combinedText_def titled_def tokenize_def char_eval)

lemma vocab_plain:
  "buildVocabulary [titled i ''aaa''] = [''aaa'']"
  "buildVocabulary [titled i ''zz''] = []"
  by (simp_all add: buildVocabulary_def tokens_plain set_add_def)

lemma first_load:
  "fst (loadMovies 0 [grok_titled ''aaa''] init) = 0"
  "heap (snd (loadMovies 0 [grok_titled ''aaa''] init)) 0 = [titled 1 ''aaa'']"
  "moviesCache (snd (loadMovies 0 [grok_titled ''aaa''] init)) = Some 0"
  "tfidfMatrix (snd (loadMovies 0 [grok_titled ''aaa''] init)) = None"
  "vocabulary (snd (loadMovies 0 [grok_titled ''aaa''] init)) = None"
  "cacheTimestamp (snd (loadMovies 0 [grok_titled ''aaa''] init)) = 0"
  "next_ref (snd (loadMovies 0 [grok_titled ''aaa''] init)) = 1"
  by (simp_all add: loadMovies_def init_def alloc_def CACHE_DURATION_def from_grok_titled trim_plain)

lemma resolve_plain:
  "findMovieByTitle [titled 1 ''aaa''] ''aaa'' = Some (titled 1 ''aaa'')"
  "findMovieByTitle [titled 1 ''aaa''] ''bbb'' = None"
  "findMovieByTitle [titled 1 ''zz''] ''zz'' = Some (titled 1 ''zz'')"
  by (simp_all add: findMovieByTitle_def trim_plain lower_plain)

lemma first_call_state:
  "heap first_call 0 = [titled 1 ''aaa'']"
  "moviesCache first_call = Some 0"
  "tfidfMatrix first_call = Some (tfidf_rows [titled 1 ''aaa''] [''aaa''])"
  "vocabulary first_call = Some [''aaa'']"
  "cacheTimestamp first_call = 0"
  "next_ref first_call = 1"
  by (simp_all add: first_call_def getRecommendations_state first_load resolve_plain Let_def
        buildTfIdfMatrix_def vocab_plain)

lemma second_load:
  "fst (loadMovies 3600000 [grok_titled ''zz''] first_call) = Suc 0"
  "heap (snd (loadMovies 3600000 [grok_titled ''zz''] first_call)) (Suc 0) = [titled 1 ''zz'']"
  "moviesCache (snd (loadMovies 3600000 [grok_titled ''zz''] first_call)) = Some (Suc 0)"
  "tfidfMatrix (snd (loadMovies 3600000 [grok_titled ''zz''] first_call)) = tfidfMatrix first_call"
  "vocabulary (snd (loadMovies 3600000 [grok_titled ''zz''] first_call)) = vocabulary first_call"
  by (simp_all add: loadMovies_def first_call_state alloc_def CACHE_DURATION_def from_grok_titled trim_plain)

lemma after_append_state:
  "moviesCache after_append = Some 0"
  "heap after_append 0 = [titled 1 ''aaa'', titled 2 ''bbb'']"
  by (simp_all add: after_append_def getRecommendations_state first_load resolve_plain Let_def
        buildTfIdfMatrix_frame append_and_invalidate_def new_movie_titled trim_plain)

lemma position_ids_titled: "position_ids [grok_titled t]"
  by (simp add: position_ids_def grok_titled_def)


lemma append_forces_rebuild:
  assumes "moviesCache s = Some movies"
  shows "tfidfMatrix (append_and_invalidate movies newMovie s) = None"
    and "fst (buildTfIdfMatrix movies (append_and_invalidate movies newMovie s)) =
           Inr (tfidf_rows (heap s movies @ [newMovie]) (buildVocabulary (heap s movies @ [newMovie])),
                buildVocabulary (heap s movies @ [newMovie]))"
  by (simp_all add: append_and_invalidate_def buildTfIdfMatrix_def Let_def)

section \<open>Claims about the tokenizer\<close>

text \<open>
  C7 (as stated, refuted). The claim has tokenize blank every character that is not
  alphanumeric and not white space. The pattern \<open>[^\w\s]\<close> keeps the underscore, so
  \<open>foo_bar\<close> stays one token, where the claim's wording gives the two tokens \<open>foo\<close> and
  \<open>bar\<close>.
\<close>

theorem tokenize_underscore_counterexample:
  "tokenize ''foo_bar'' = [''foo_bar''] \<and>
   tokenize_spec is_alphanumeric ''foo_bar'' = [''foo'', ''bar''] \<and>
   tokenize ''foo_bar'' \<noteq> tokenize_spec is_alphanumeric ''foo_bar''"
  by (simp add: tokenize_def tokenize_spec_def char_eval)

text \<open>
  C7 (amended). For every input string, tokenize lowercases the text, replaces every
  character that is neither a word character (ASCII letter, digit or underscore) nor
  white space with a space, splits on white space runs and drops every token of length
  at most 2. It is a function of its argument alone, so tokenizing the same string twice
  yields the same output.
\<close>

theorem tokenize_refines_spec:
  "tokenize text = tokenize_spec is_word text"
proof -
  have "(\<lambda>c. if \<not> is_word c \<and> \<not> is_space c then CHR '' '' else c) =
        (\<lambda>c. if is_word c \<or> is_space c then c else CHR '' '')"
    by auto
  moreover have "(\<lambda>t::string. \<not> length t \<le> 2) = (\<lambda>w. length w > 2)"
    by auto
  ultimately show ?thesis
    by (simp add: tokenize_words tokenize_spec_def replace_nonword_def)
qed

section \<open>Claims about cosine similarity\<close>







section \<open>Claims about the TF-IDF matrix\<close>

text \<open>
  C1 (the code departs from the claim). The claim gives every vocabulary term the weight
  \<open>tf * idf\<close> and excludes NaN. \<open>termFreq\<close> is a plain object, so for the term
  \<open>constructor\<close> the read \<open>termFreq[word]\<close> finds \<open>Object.prototype.constructor\<close> (or the
  string that \<open>+ 1\<close> made of it), and dividing it by the token count gives NaN. In the
  corpus of the three movies titled \<open>Constructor\<close>, \<open>Inception\<close> and \<open>Interstellar\<close> the
  builder puts NaN into the column of \<open>constructor\<close> in every row, where the claim's
  weight is \<open>ln (3 / 2)\<close> for the first movie and 0 for the others; the other columns are
  as claimed. In general the entry of such a term is NaN for every document that has a
  token (lemma \<open>calculateTfIdf_prototype_key\<close>), and for the terms that name no property
  of \<open>Object.prototype\<close> the weights are the claim's (lemma \<open>calculateTfIdf_weights\<close>).
\<close>

theorem tfidf_rows_constructor_NaN:
  "buildVocabulary ctor_corpus = [''constructor'', ''inception'', ''interstellar''] \<and>
   tfidf_rows ctor_corpus (buildVocabulary ctor_corpus) =
     [[NaN, Num 0, Num 0], [NaN, Num (ln (3 / 2)), Num 0], [NaN, Num 0, Num (ln (3 / 2))]] \<and>
   weight ''constructor'' (combinedText (titled 1 ''Constructor'')) (map combinedText ctor_corpus) = ln (3 / 2) \<and>
   weight ''constructor'' (combinedText (titled 2 ''Inception'')) (map combinedText ctor_corpus) = 0 \<and>
   weight ''inception'' (combinedText (titled 2 ''Inception'')) (map combinedText ctor_corpus) = ln (3 / 2)"
proof -
  have t: "tokenize (combinedText (titled 1 ''Constructor'')) = [''constructor'']"
    "tokenize (combinedText (titled 2 ''Inception'')) = [''inception'']"
    "tokenize (combinedText (titled 3 ''Interstellar'')) = [''interstellar'']"
    by (simp_all add: titled_def combinedText_def tokenize_def char_eval)
  have v: "buildVocabulary ctor_corpus = [''constructor'', ''inception'', ''interstellar'']"
    by (simp add: ctor_corpus_def buildVocabulary_def t set_add_def)
  have "tfidf_rows ctor_corpus [''constructor'', ''inception'', ''interstellar''] =
     [[NaN, Num 0, Num 0], [NaN, Num (ln (3 / 2)), Num 0], [NaN, Num 0, Num (ln (3 / 2))]]"
    by (simp add: ctor_corpus_def tfidf_rows_def calculateTfIdf_def t count_token_def get_prop_def
          set_prop_def or_zero_def plus_one_def to_number_def prototype_keys_def)
  moreover have "weight ''constructor'' (combinedText (titled 1 ''Constructor'')) (map combinedText ctor_corpus) = ln (3 / 2)"
    "weight ''constructor'' (combinedText (titled 2 ''Inception'')) (map combinedText ctor_corpus) = 0"
    "weight ''inception'' (combinedText (titled 2 ''Inception'')) (map combinedText ctor_corpus) = ln (3 / 2)"
    by (simp_all add: ctor_corpus_def weight_def tf_def idf_def doc_frequency_def t)
  ultimately show ?thesis by (simp add: v)
qed

section \<open>Claims about the ranking\<close>





section \<open>Claims about the keyword search\<close>



section \<open>Claims about title resolution\<close>

text \<open>
  C4 (as stated, refuted). The claim resolves every query by exact match, then by
  substring match. \<open>findMovieByTitle\<close> returns nothing for a query that is empty after
  trimming (\<^verbatim>\<open>if (!normalizedTitle) return null;\<close>), where the claim's rule returns
  the first item, whose title contains the empty string.
\<close>

theorem findMovieByTitle_blank_counterexample:
  "findMovieByTitle scenario ''  '' = None \<and> resolve_spec scenario ''  '' = Some inception"
  by (simp add: resolve_scenario)

text \<open>
  C4 (amended). For every corpus and query string, title resolution
  (recommendation-grok.ts) trims and lowercases both sides; for a query that is empty
  after trimming it returns absent; otherwise it returns the first item whose normalized
  title equals the normalized query, else the first item in corpus order whose normalized
  title contains the normalized query as a substring, else absent. Queries that differ
  only in letter case resolve to the same item.
\<close>

theorem findMovieByTitle_resolution:
  "(trim query = [] \<longrightarrow> findMovieByTitle movies query = None) \<and>
   (trim query \<noteq> [] \<longrightarrow> findMovieByTitle movies query = resolve_spec movies query) \<and>
   (toLowerCase q1 = toLowerCase q2 \<longrightarrow> findMovieByTitle movies q1 = findMovieByTitle movies q2)"
  using findMovieByTitle_blank[of query movies] findMovieByTitle_resolve[of query movies]
    findMovieByTitle_case[of q1 q2 movies]
  by (auto simp add: toLowerCase_def)


theorem findMovieByTitle_resolution_witness:
  "trim ''  '' = [] \<and> findMovieByTitle scenario ''  '' = None \<and>
   trim ''thief'' \<noteq> [] \<and> resolve_spec scenario ''thief'' = Some the_thief \<and>
   toLowerCase ''INCEPTION'' = toLowerCase ''inception'' \<and>
   findMovieByTitle scenario ''inception'' = Some inception"
  using findMovieByTitle_resolution[of "''  ''" scenario "''INCEPTION''" "''inception''"]
    findMovieByTitle_resolution[of "''thief''" scenario "''INCEPTION''" "''inception''"]
  by (simp add: resolve_scenario) (simp add: trim_def char_eval)

section \<open>Claims about the caches\<close>

text \<open>
  C5 (the code departs from the claim). The claim lets a build call reuse a matrix only
  if it was built from the same corpus. \<open>buildTfIdfMatrix\<close> compares its argument with
  the current \<open>moviesCache\<close> and the row count with the corpus length; \<open>loadMovies\<close>
  replaces \<open>moviesCache\<close> when the cache has expired and leaves \<open>tfidfMatrix\<close> and
  \<open>vocabulary\<close> in place. After a first recommendation on the corpus \<open>[aaa]\<close> at time 0
  and a second one at time 3600000, when the provider returns the corpus \<open>[zz]\<close> of the
  same length, the module still holds, and ranks with, the matrix and the vocabulary
  \<open>[aaa]\<close> of the first corpus; the second corpus has the empty vocabulary. The half
  of the claim about the append holds (lemma \<open>append_forces_rebuild\<close>).
\<close>

theorem stale_matrix_after_reload:
  "moviesCache first_call = Some 0 \<and> heap first_call 0 = [titled 1 ''aaa''] \<and>
   vocabulary first_call = Some (buildVocabulary [titled 1 ''aaa'']) \<and>
   tfidfMatrix first_call = Some (tfidf_rows [titled 1 ''aaa''] (buildVocabulary [titled 1 ''aaa''])) \<and>
   moviesCache second_call = Some 1 \<and> heap second_call 1 = [titled 1 ''zz''] \<and>
   vocabulary second_call = Some [''aaa''] \<and>
   tfidfMatrix second_call = Some (tfidf_rows [titled 1 ''aaa''] [''aaa'']) \<and>
   buildVocabulary [titled 1 ''zz''] = [] \<and>
   tfidf_rows [titled 1 ''zz''] (buildVocabulary [titled 1 ''zz'']) = [[]] \<and>
   length (tfidf_rows [titled 1 ''aaa''] [''aaa'']) = length [titled 1 ''zz'']"
proof -
  have "heap second_call 1 = [titled 1 ''zz'']" "moviesCache second_call = Some 1"
    "vocabulary second_call = Some [''aaa'']"
    "tfidfMatrix second_call = Some (tfidf_rows [titled 1 ''aaa''] [''aaa''])"
    by (simp_all add: second_call_def getRecommendations_state second_load resolve_plain Let_def
          buildTfIdfMatrix_def first_call_state)
  moreover have "tfidf_rows [titled 1 ''zz''] (buildVocabulary [titled 1 ''zz'']) = [[]]"
    by (simp add: vocab_plain tfidf_rows_def calculateTfIdf_def tokens_plain)
  ultimately show ?thesis
    by (simp add: first_call_state vocab_plain)
qed



text \<open>
  C8. Building a TF-IDF matrix for an empty corpus fails with \<open>EmptyCorpus\<close> and leaves
  the state as it was; when the loaded corpus is empty, the recommendation operation
  fails with \<open>EmptyCorpus\<close> whatever the title and the single-item lookup are, in the
  state that loading left, with the cached matrix and vocabulary untouched.
\<close>

theorem empty_corpus_fails_fast:
  "(heap s movies = [] \<longrightarrow> buildTfIdfMatrix movies s = (Inl EmptyCorpus, s)) \<and>
   (heap (snd (loadMovies now provider s)) (fst (loadMovies now provider s)) = [] \<longrightarrow>
      getRecommendations now provider lookup movieTitle numRecommendations s =
        (Inl EmptyCorpus, snd (loadMovies now provider s)) \<and>
      tfidfMatrix (snd (loadMovies now provider s)) = tfidfMatrix s \<and>
      vocabulary (snd (loadMovies now provider s)) = vocabulary s)"
  by (auto simp add: buildTfIdfMatrix_def getRecommendations_def split_beta loadMovies_def alloc_def
        Let_def split: option.splits)


theorem empty_corpus_fails_fast_witness:
  "heap init 0 = [] \<and> buildTfIdfMatrix 0 init = (Inl EmptyCorpus, init) \<and>
   heap (snd (loadMovies 0 [] init)) (fst (loadMovies 0 [] init)) = [] \<and>
   fst (getRecommendations 0 [] (Some (grok_titled ''Inception'')) ''Inception'' 5 init) = Inl EmptyCorpus"
  using empty_corpus_fails_fast[of init 0 0 "[]" "Some (grok_titled ''Inception'')" "''Inception''" 5]
  by (simp add: empty_load) (simp add: init_def)



text \<open>
  C10 (as stated, refuted). The initial load keeps an id the provider supplies and
  numbers the other items by position: a provider list whose first item has id 2 and
  whose second item has none gives the corpus ids \<open>[2, 2]\<close>.
\<close>

theorem duplicate_ids_counterexample:
  "moviesCache (snd (loadMovies 0 [(grok_titled ''aaa'')\<lparr>g_movie_id := Some 2\<rparr>, grok_titled ''bbb''] init)) = Some 0 \<and>
   map movie_id (heap (snd (loadMovies 0 [(grok_titled ''aaa'')\<lparr>g_movie_id := Some 2\<rparr>, grok_titled ''bbb''] init)) 0) = [2, 2] \<and>
   \<not> distinct (map movie_id (heap (snd (loadMovies 0 [(grok_titled ''aaa'')\<lparr>g_movie_id := Some 2\<rparr>, grok_titled ''bbb''] init)) 0))"
  by (simp add: loadMovies_def init_def alloc_def CACHE_DURATION_def from_grok_def grok_titled_def upt_rec)

text \<open>
  C10 (amended). When every list the provider returns gives each item no id, the id 0 or
  the item's position counted from 1, every corpus state reachable through the cache
  operations (initial load, reload after expiry, and the append performed when a title
  lookup falls back to the single-item provider) has the ids \<open>1..n\<close> in corpus order,
  so no two items share the same id.
\<close>

theorem reachable_ids_distinct:
  assumes "reachable s" "moviesCache s = Some r"
  shows "numbered (heap s r) \<and> distinct (map movie_id (heap s r))"
  using reachable_numbered[OF assms(1)] assms(2)
  by (simp add: corpus_numbered_def numbered_distinct)

theorem reachable_ids_distinct_witness:
  "reachable after_append \<and> moviesCache after_append = Some 0 \<and>
   heap after_append 0 = [titled 1 ''aaa'', titled 2 ''bbb''] \<and>
   distinct (map movie_id (heap after_append 0))"
proof -
  have r: "reachable after_append"
    unfolding after_append_def
    by (rule reachable_recommend[OF reachable_init position_ids_titled])
  from reachable_ids_distinct[OF r after_append_state(1)] r show ?thesis
    by (simp add: after_append_state)
qed

end
